theory Spec2Isabelle
  imports Main
begin

section \<open>Exceptions, instants and durations\<close>

text \<open>
  The exceptions that the modelled code can raise: Python's builtin \<open>TypeError\<close>,
  \<open>ValueError\<close> and \<open>AttributeError\<close>, the \<open>ParserError\<close> that
  \<open>condition_item.py\<close> imports from \<open>..utils\<close>, and \<open>OtherError\<close> for any
  exception raised by user code (a condition subclass, a rule's constructor).
  A function that can raise returns \<open>error + 'a\<close>, with \<open>Inl\<close> the exception.
\<close>

datatype error = TypeError | ValueError | AttributeError | ParserError | OtherError string

text \<open>
  A \<open>datetime\<close> is an integer number of microseconds on the time line, a
  \<open>timedelta\<close> an integer number of microseconds; \<open>datetime.timedelta.resolution\<close>
  is one microsecond.
\<close>

type_synonym datetime = int
type_synonym timedelta = int

definition timedelta_resolution :: timedelta where
  "timedelta_resolution = 1"

text \<open>
  The module \<open>pypipe.time\<close> lies outside the files modelled here. A period is taken
  as a parameter: its membership test (\<open>dt in period\<close>) and its \<open>rollforward\<close>, which
  returns an interval with a \<open>left\<close> and a \<open>right\<close> edge.
\<close>

record interval =
  left :: datetime
  right :: datetime

record period =
  contains :: "datetime \<Rightarrow> bool"
  rollforward :: "datetime \<Rightarrow> interval"

text \<open>
  \<open>BaseCondition.current_datetime\<close>: the class attribute \<open>mode\<close>, the attribute
  \<open>_current_datetime\<close> written by \<open>set_current_datetime\<close> (absent until then) and
  the value \<open>datetime.datetime.now()\<close> would return.
\<close>

record clock =
  mode :: string
  current_datetime_attr :: "datetime option"
  datetime_now :: datetime

definition current_datetime :: "clock \<Rightarrow> datetime" where
  "current_datetime k =
     (case current_datetime_attr k of
        Some v \<Rightarrow> if mode k = ''test'' then v else datetime_now k
      | None \<Rightarrow> datetime_now k)"

definition set_current_datetime :: "datetime \<Rightarrow> clock \<Rightarrow> clock" where
  "set_current_datetime v k = k\<lparr>current_datetime_attr := Some v\<rparr>"

text \<open>
  The clock of a process that never left the default mode \<open>"prod"\<close> nor called
  \<open>set_current_datetime\<close>, at the instant \<open>t\<close>.
\<close>

definition prod_clock :: "datetime \<Rightarrow> clock" where
  "prod_clock t = \<lparr>mode = ''prod'', current_datetime_attr = None, datetime_now = t\<rparr>"

section \<open>Condition objects\<close>

text \<open>
  One constructor per class of \<open>pypipe/conditions/base.py\<close>, holding the instance's
  attributes: \<open>Any\<close> and \<open>All\<close> hold the list \<open>subconditions\<close>, \<open>Not\<close> holds
  \<open>condition\<close>, a \<open>TimeCondition\<close> holds \<open>period\<close> when it has been set
  (\<open>__init__\<close> sets it only for a class with a \<open>period_class\<close>, \<open>from_period\<close>
  always). \<open>Custom\<close> stands for an instance of a user-defined subclass of
  \<open>BaseCondition\<close>: what its \<open>__bool__\<close> does (returns a boolean or raises) and its
  method \<open>estimate_timedelta\<close> when the subclass defines one.
\<close>

datatype cond =
    AlwaysTrue
  | AlwaysFalse
  | TimeCondition "period option"
  | Any "cond list"
  | All_cond "cond list"
  | Not_cond cond
  | Custom "error + bool" "(datetime \<Rightarrow> error + timedelta) option"

subsection \<open>Construction\<close>

text \<open>
  \<open>Any.__init__(self, *conditions)\<close>: the loop over the arguments, with the list
  \<open>self.subconditions\<close> built so far as accumulator. An argument that is an instance
  of the same class contributes its own \<open>subconditions\<close>, any other argument itself.
\<close>

fun Any_init_loop :: "cond list \<Rightarrow> cond list \<Rightarrow> cond list" where
  "Any_init_loop subconds [] = subconds"
| "Any_init_loop subconds (c # conditions) =
     Any_init_loop (subconds @ (case c of Any xs \<Rightarrow> xs | _ \<Rightarrow> [c])) conditions"

definition Any_init :: "cond list \<Rightarrow> cond" where
  "Any_init conditions = Any (Any_init_loop [] conditions)"

text \<open>\<open>All.__init__\<close>, the same loop for \<open>All\<close>.\<close>

fun All_init_loop :: "cond list \<Rightarrow> cond list \<Rightarrow> cond list" where
  "All_init_loop subconds [] = subconds"
| "All_init_loop subconds (c # conditions) =
     All_init_loop (subconds @ (case c of All_cond xs \<Rightarrow> xs | _ \<Rightarrow> [c])) conditions"

definition All_init :: "cond list \<Rightarrow> cond" where
  "All_init conditions = All_cond (All_init_loop [] conditions)"

text \<open>\<open>Not.__init__\<close> stores its argument, whatever it is.\<close>

definition Not_init :: "cond \<Rightarrow> cond" where
  "Not_init condition = Not_cond condition"

text \<open>
  The attribute \<open>subconditions\<close>: the list of an \<open>Any\<close> or \<open>All\<close>, the property of
  \<open>Not\<close> that returns the tuple \<open>(self.condition,)\<close>; the other classes have none.
\<close>

fun subconditions :: "cond \<Rightarrow> error + cond list" where
  "subconditions (Any cs) = Inr cs"
| "subconditions (All_cond cs) = Inr cs"
| "subconditions (Not_cond c) = Inr [c]"
| "subconditions _ = Inl AttributeError"

text \<open>
  The operators: \<open>__and__\<close>, \<open>__or__\<close> and \<open>__invert__\<close> of \<open>BaseCondition\<close>, and
  the \<open>__invert__\<close> that \<open>Not\<close> overrides to return its \<open>condition\<close>.
\<close>

definition and_cond :: "cond \<Rightarrow> cond \<Rightarrow> cond" where
  "and_cond self other = All_init [self, other]"

definition or_cond :: "cond \<Rightarrow> cond \<Rightarrow> cond" where
  "or_cond self other = Any_init [self, other]"

fun invert :: "cond \<Rightarrow> cond" where
  "invert (Not_cond condition) = condition"
| "invert self = Not_init self"

subsection \<open>Evaluation\<close>

text \<open>
  \<open>bool_py k c\<close> is Python's \<open>bool(c)\<close>, that is \<open>c.__bool__()\<close>, with the clock
  \<open>k\<close>; \<open>any_py\<close> and \<open>all_py\<close> are the builtins \<open>any\<close> and \<open>all\<close> on a list
  of conditions: they test the elements from left to right, stop at the first one
  that decides, and an exception of an element they test propagates.
\<close>

fun bool_py :: "clock \<Rightarrow> cond \<Rightarrow> error + bool"
  and any_py :: "clock \<Rightarrow> cond list \<Rightarrow> error + bool"
  and all_py :: "clock \<Rightarrow> cond list \<Rightarrow> error + bool" where
  "bool_py k AlwaysTrue = Inr True"
| "bool_py k AlwaysFalse = Inr False"
| "bool_py k (TimeCondition None) = Inl AttributeError"
| "bool_py k (TimeCondition (Some p)) = Inr (contains p (current_datetime k))"
| "bool_py k (Any cs) = any_py k cs"
| "bool_py k (All_cond cs) = all_py k cs"
| "bool_py k (Not_cond c) =
     (case bool_py k c of Inl e \<Rightarrow> Inl e | Inr b \<Rightarrow> Inr (\<not> b))"
| "bool_py k (Custom outcome est) = outcome"
| "any_py k [] = Inr False"
| "any_py k (c # cs) =
     (case bool_py k c of Inl e \<Rightarrow> Inl e
      | Inr b \<Rightarrow> if b then Inr True else any_py k cs)"
| "all_py k [] = Inr True"
| "all_py k (c # cs) =
     (case bool_py k c of Inl e \<Rightarrow> Inl e
      | Inr b \<Rightarrow> if b then all_py k cs else Inr False)"

subsection \<open>Estimates\<close>

text \<open>
  \<open>hasattr(cond, "estimate_timedelta")\<close>. \<open>Any\<close> and \<open>All\<close> define the method.
  \<open>Not\<close> does not, and neither do its base classes, so the lookup ends in
  \<open>Not.__getattr__\<close>, which asks the wrapped condition. \<open>AlwaysTrue\<close>,
  \<open>AlwaysFalse\<close> and \<open>TimeCondition\<close> have no attribute of that name (the method
  of \<open>TimeCondition\<close> is called \<open>estimate_next\<close>).
\<close>

fun has_estimate_timedelta :: "cond \<Rightarrow> bool" where
  "has_estimate_timedelta (Any cs) = True"
| "has_estimate_timedelta (All_cond cs) = True"
| "has_estimate_timedelta (Not_cond c) = has_estimate_timedelta c"
| "has_estimate_timedelta (Custom outcome est) = (est \<noteq> None)"
| "has_estimate_timedelta _ = False"

text \<open>
  \<open>Any.estimate_timedelta\<close> calls \<open>hasattr("estimate_timedelta")\<close>, the builtin with
  the name as its only argument: Python raises \<open>TypeError\<close> (two arguments expected).
\<close>

definition hasattr_one_argument :: "string \<Rightarrow> error + bool" where
  "hasattr_one_argument name = Inl TypeError"

text \<open>
  The builtins \<open>min\<close> and \<open>max\<close> on a generator, given as the list of what each
  element evaluates to, in order: \<open>ValueError\<close> on an empty sequence, the exception of
  the first element that raises, otherwise the least (greatest) value, kept in \<open>m\<close>
  while the remaining elements are read.
\<close>

fun min_loop :: "timedelta \<Rightarrow> (error + timedelta) list \<Rightarrow> error + timedelta" where
  "min_loop m [] = Inr m"
| "min_loop m (x # xs) =
     (case x of Inl e \<Rightarrow> Inl e | Inr v \<Rightarrow> min_loop (if v < m then v else m) xs)"

fun min_py :: "(error + timedelta) list \<Rightarrow> error + timedelta" where
  "min_py [] = Inl ValueError"
| "min_py (x # xs) = (case x of Inl e \<Rightarrow> Inl e | Inr v \<Rightarrow> min_loop v xs)"

fun max_loop :: "timedelta \<Rightarrow> (error + timedelta) list \<Rightarrow> error + timedelta" where
  "max_loop m [] = Inr m"
| "max_loop m (x # xs) =
     (case x of Inl e \<Rightarrow> Inl e | Inr v \<Rightarrow> max_loop (if v > m then v else m) xs)"

fun max_py :: "(error + timedelta) list \<Rightarrow> error + timedelta" where
  "max_py [] = Inl ValueError"
| "max_py (x # xs) = (case x of Inl e \<Rightarrow> Inl e | Inr v \<Rightarrow> max_loop v xs)"

text \<open>
  \<open>estimate_timedelta c dt\<close> is the call \<open>c.estimate_timedelta(dt)\<close>;
  \<open>Any_estimates\<close> and \<open>All_estimates\<close> are the generator expressions that
  \<open>Any.estimate_timedelta\<close> hands to \<open>min\<close> and \<open>All.estimate_timedelta\<close> hands to
  \<open>max\<close>. On a \<open>Not\<close> the call reaches the wrapped condition through
  \<open>__getattr__\<close>; on an object without the attribute it raises \<open>AttributeError\<close>.
\<close>

fun estimate_timedelta :: "cond \<Rightarrow> datetime \<Rightarrow> error + timedelta"
  and Any_estimates :: "cond list \<Rightarrow> datetime \<Rightarrow> (error + timedelta) list"
  and All_estimates :: "cond list \<Rightarrow> datetime \<Rightarrow> (error + timedelta) list" where
  "estimate_timedelta (Any cs) dt = min_py (Any_estimates cs dt)"
| "estimate_timedelta (All_cond cs) dt = max_py (All_estimates cs dt)"
| "estimate_timedelta (Not_cond c) dt = estimate_timedelta c dt"
| "estimate_timedelta (Custom outcome est) dt =
     (case est of None \<Rightarrow> Inl AttributeError | Some f \<Rightarrow> f dt)"
| "estimate_timedelta AlwaysTrue dt = Inl AttributeError"
| "estimate_timedelta AlwaysFalse dt = Inl AttributeError"
| "estimate_timedelta (TimeCondition p) dt = Inl AttributeError"
| "Any_estimates [] dt = []"
| "Any_estimates (c # cs) dt =
     (case hasattr_one_argument ''estimate_timedelta'' of
        Inl e \<Rightarrow> Inl e
      | Inr b \<Rightarrow> if b then estimate_timedelta c dt else Inr 0) # Any_estimates cs dt"
| "All_estimates [] dt = []"
| "All_estimates (c # cs) dt =
     (if has_estimate_timedelta c then estimate_timedelta c dt
      else Inr timedelta_resolution) # All_estimates cs dt"

text \<open>
  \<open>TimeCondition.estimate_next(self, dt)\<close>, on the attribute \<open>period\<close> of the
  instance (\<open>AttributeError\<close> when it was never set):
  \<^verbatim>\<open>interval = self.period.rollforward(dt); return dt - interval.left\<close>.
\<close>

fun TimeCondition_estimate_next :: "period option \<Rightarrow> datetime \<Rightarrow> error + timedelta" where
  "TimeCondition_estimate_next None dt = Inl AttributeError"
| "TimeCondition_estimate_next (Some p) dt = Inr (dt - left (rollforward p dt))"

section \<open>Parsing one condition\<close>

text \<open>
  The class \<open>Parser\<close> of \<open>..utils\<close> lies outside the files modelled here. An entry of
  \<open>CONDITION_PARSERS\<close> is taken as what calling it does on a string: it returns a
  condition, raises \<open>ParserError\<close>, or raises something else.
  \<open>add_condition_parser\<close> appends an entry; \<open>parse_condition_item\<close> calls the
  entries in order, goes on after a \<open>ParserError\<close>, and raises \<open>ValueError\<close> after
  the last one. Any other exception leaves the loop at once.
\<close>

type_synonym parser = "string \<Rightarrow> error + cond"

definition add_condition_parser :: "parser \<Rightarrow> parser list \<Rightarrow> parser list" where
  "add_condition_parser sentence parsers = parsers @ [sentence]"

fun parse_condition_item :: "parser list \<Rightarrow> string \<Rightarrow> error + cond" where
  "parse_condition_item [] s = Inl ValueError"
| "parse_condition_item (parser # parsers) s =
     (case parser s of
        Inl e \<Rightarrow> if e = ParserError then parse_condition_item parsers s else Inl e
      | Inr c \<Rightarrow> Inr c)"

section \<open>Predicates used in the statements\<close>

text \<open>\<open>isinstance(c, Any)\<close> and \<open>isinstance(c, All)\<close>.\<close>

fun isinstance_Any :: "cond \<Rightarrow> bool" where
  "isinstance_Any (Any cs) = True"
| "isinstance_Any _ = False"

fun isinstance_All :: "cond \<Rightarrow> bool" where
  "isinstance_All (All_cond cs) = True"
| "isinstance_All _ = False"

text \<open>
  A composite is flat when no child of an \<open>Any\<close> is an \<open>Any\<close> and no child of an
  \<open>All\<close> is an \<open>All\<close>; every other condition is flat.
\<close>

fun flat :: "cond \<Rightarrow> bool" where
  "flat (Any cs) = list_all (\<lambda>c. \<not> isinstance_Any c) cs"
| "flat (All_cond cs) = list_all (\<lambda>c. \<not> isinstance_All c) cs"
| "flat _ = True"

text \<open>A \<open>Not\<close> that wraps a \<open>Not\<close>.\<close>

fun double_Not :: "cond \<Rightarrow> bool" where
  "double_Not (Not_cond (Not_cond c)) = True"
| "double_Not _ = False"


section \<open>Construction: flattening and children\<close>

lemma Any_init_loop_concat:
  "Any_init_loop acc cs =
     acc @ concat (map (\<lambda>c. case c of Any xs \<Rightarrow> xs | _ \<Rightarrow> [c]) cs)"
  by (induction cs arbitrary: acc) simp_all

lemma All_init_loop_concat:
  "All_init_loop acc cs =
     acc @ concat (map (\<lambda>c. case c of All_cond xs \<Rightarrow> xs | _ \<Rightarrow> [c]) cs)"
  by (induction cs arbitrary: acc) simp_all

lemma Any_contribution_empty:
  "(case c of Any xs \<Rightarrow> xs | _ \<Rightarrow> [c]) = [] \<longleftrightarrow> c = Any []"
  by (cases c) simp_all

lemma All_contribution_empty:
  "(case c of All_cond xs \<Rightarrow> xs | _ \<Rightarrow> [c]) = [] \<longleftrightarrow> c = All_cond []"
  by (cases c) simp_all

lemma Any_contribution_other:
  "\<not> isinstance_Any c \<Longrightarrow> (case c of Any xs \<Rightarrow> xs | _ \<Rightarrow> [c]) = [c]"
  by (cases c) simp_all

lemma All_contribution_other:
  "\<not> isinstance_All c \<Longrightarrow> (case c of All_cond xs \<Rightarrow> xs | _ \<Rightarrow> [c]) = [c]"
  by (cases c) simp_all

text \<open>Flatness is an invariant of construction: the constructors build flat composites
  from flat arguments.\<close>

lemma flat_Any_init: "\<forall>c \<in> set cs. flat c \<Longrightarrow> flat (Any_init cs)"
  by (auto split: cond.splits simp: list_all_iff Any_init_def Any_init_loop_concat)

lemma flat_All_init: "\<forall>c \<in> set cs. flat c \<Longrightarrow> flat (All_init cs)"
  by (auto split: cond.splits simp: list_all_iff All_init_def All_init_loop_concat)

text \<open>
  Repeated combination with \<open>|\<close> or \<open>&\<close> gives the same children whichever way it
  associates.
\<close>

lemma operators_associate:
  "subconditions (or_cond (or_cond a b) c) = subconditions (or_cond a (or_cond b c))"
  "subconditions (and_cond (and_cond a b) c) = subconditions (and_cond a (and_cond b c))"
  by (simp_all add: or_cond_def and_cond_def Any_init_def All_init_def)

text \<open>
  C6. The child sequence of \<open>Any(*cs)\<close> is, argument after argument from left to
  right, the children of an argument that is an \<open>Any\<close> and otherwise the argument
  itself; likewise for \<open>All\<close>. So for all conditions \<open>a\<close>, \<open>b\<close>, \<open>c\<close>,
  \<open>Any(Any(a, b), c)\<close> has the same child sequence as \<open>Any(a, b, c)\<close>, which is
  \<open>[a, b, c]\<close> when none of the three is an \<open>Any\<close>; likewise for \<open>All\<close>. When
  \<open>a\<close>, \<open>b\<close> and \<open>c\<close> are flat (as everything the constructors build is), no
  \<open>Any\<close> stands directly inside the resulting \<open>Any\<close> and no \<open>All\<close> directly inside
  the resulting \<open>All\<close>.
\<close>

theorem flattening:
  "subconditions (Any_init cs) =
     Inr (concat (map (\<lambda>c. case c of Any xs \<Rightarrow> xs | _ \<Rightarrow> [c]) cs)) \<and>
   subconditions (All_init cs) =
     Inr (concat (map (\<lambda>c. case c of All_cond xs \<Rightarrow> xs | _ \<Rightarrow> [c]) cs)) \<and>
   subconditions (Any_init [Any_init [a, b], c]) = subconditions (Any_init [a, b, c]) \<and>
   subconditions (All_init [All_init [a, b], c]) = subconditions (All_init [a, b, c]) \<and>
   (\<not> isinstance_Any a \<and> \<not> isinstance_Any b \<and> \<not> isinstance_Any c \<longrightarrow>
      subconditions (Any_init [Any_init [a, b], c]) = Inr [a, b, c] \<and>
      subconditions (Any_init [a, b, c]) = Inr [a, b, c]) \<and>
   (\<not> isinstance_All a \<and> \<not> isinstance_All b \<and> \<not> isinstance_All c \<longrightarrow>
      subconditions (All_init [All_init [a, b], c]) = Inr [a, b, c] \<and>
      subconditions (All_init [a, b, c]) = Inr [a, b, c]) \<and>
   (flat a \<and> flat b \<and> flat c \<longrightarrow>
      flat (Any_init [Any_init [a, b], c]) \<and> flat (All_init [All_init [a, b], c]))"
proof (intro conjI impI)
  show "subconditions (Any_init cs) =
     Inr (concat (map (\<lambda>c. case c of Any xs \<Rightarrow> xs | _ \<Rightarrow> [c]) cs))"
    by (simp add: Any_init_def Any_init_loop_concat)
  show "subconditions (All_init cs) =
     Inr (concat (map (\<lambda>c. case c of All_cond xs \<Rightarrow> xs | _ \<Rightarrow> [c]) cs))"
    by (simp add: All_init_def All_init_loop_concat)
  show "subconditions (Any_init [Any_init [a, b], c]) = subconditions (Any_init [a, b, c])"
    by (simp add: Any_init_def)
  show "subconditions (All_init [All_init [a, b], c]) = subconditions (All_init [a, b, c])"
    by (simp add: All_init_def)
next
  assume "\<not> isinstance_Any a \<and> \<not> isinstance_Any b \<and> \<not> isinstance_Any c"
  then show "subconditions (Any_init [Any_init [a, b], c]) = Inr [a, b, c]"
    and "subconditions (Any_init [a, b, c]) = Inr [a, b, c]"
    by (simp_all add: Any_init_def Any_contribution_other)
next
  assume "\<not> isinstance_All a \<and> \<not> isinstance_All b \<and> \<not> isinstance_All c"
  then show "subconditions (All_init [All_init [a, b], c]) = Inr [a, b, c]"
    and "subconditions (All_init [a, b, c]) = Inr [a, b, c]"
    by (simp_all add: All_init_def All_contribution_other)
next
  assume f: "flat a \<and> flat b \<and> flat c"
  then have ab: "flat (Any_init [a, b])" and ab': "flat (All_init [a, b])"
    by (simp_all add: flat_Any_init flat_All_init)
  from f ab show "flat (Any_init [Any_init [a, b], c])"
    by (simp add: flat_Any_init)
  from f ab' show "flat (All_init [All_init [a, b], c])"
    by (simp add: flat_All_init)
qed

text \<open>
  The theorem at \<open>a = AlwaysTrue\<close>, \<open>b = AlwaysFalse\<close>, \<open>c = ~AlwaysTrue\<close>, for
  \<open>Any\<close> and for \<open>All\<close>: the children are \<open>a\<close>, \<open>b\<close>, \<open>c\<close> in this order,
  nested or not, and the results are flat. And at three arguments of which the first
  and the last are composites of the same class, the middle one of the other class:
  the first and the last are absorbed in place, the middle one stays a child.
\<close>

theorem flattening_witness:
  "subconditions (Any_init [Any_init [AlwaysTrue, AlwaysFalse], Not_cond AlwaysTrue])
     = Inr [AlwaysTrue, AlwaysFalse, Not_cond AlwaysTrue] \<and>
   subconditions (Any_init [AlwaysTrue, AlwaysFalse, Not_cond AlwaysTrue])
     = Inr [AlwaysTrue, AlwaysFalse, Not_cond AlwaysTrue] \<and>
   subconditions (All_init [All_init [AlwaysTrue, AlwaysFalse], Not_cond AlwaysTrue])
     = Inr [AlwaysTrue, AlwaysFalse, Not_cond AlwaysTrue] \<and>
   subconditions (All_init [AlwaysTrue, AlwaysFalse, Not_cond AlwaysTrue])
     = Inr [AlwaysTrue, AlwaysFalse, Not_cond AlwaysTrue] \<and>
   flat (Any_init [Any_init [AlwaysTrue, AlwaysFalse], Not_cond AlwaysTrue]) \<and>
   flat (All_init [All_init [AlwaysTrue, AlwaysFalse], Not_cond AlwaysTrue]) \<and>
   subconditions
     (Any_init [Any [AlwaysTrue, AlwaysFalse], All_cond [AlwaysTrue], Any [AlwaysFalse]])
     = Inr [AlwaysTrue, AlwaysFalse, All_cond [AlwaysTrue], AlwaysFalse] \<and>
   subconditions
     (All_init [All_cond [AlwaysTrue, AlwaysFalse], Any [AlwaysTrue], All_cond [AlwaysFalse]])
     = Inr [AlwaysTrue, AlwaysFalse, Any [AlwaysTrue], AlwaysFalse]"
  using
    flattening [of "[Any [AlwaysTrue, AlwaysFalse], All_cond [AlwaysTrue], Any [AlwaysFalse]]"
      AlwaysTrue AlwaysFalse "Not_cond AlwaysTrue"]
    flattening [of "[All_cond [AlwaysTrue, AlwaysFalse], Any [AlwaysTrue], All_cond [AlwaysFalse]]"
      AlwaysTrue AlwaysFalse "Not_cond AlwaysTrue"]
  by simp

text \<open>
  C4 as stated fails: \<open>Any()\<close> and \<open>All()\<close>, built from no argument, have an empty
  child sequence.
\<close>

theorem children_nonempty_counterexample:
  "subconditions (Any_init []) = Inr [] \<and> subconditions (All_init []) = Inr []"
  by (simp add: Any_init_def All_init_def)

text \<open>
  C4, amended. Immediately after construction the child sequence of an \<open>Any\<close> is empty
  exactly when every argument was an \<open>Any\<close> without children (in particular when
  there was no argument), and non-empty otherwise; likewise for \<open>All\<close>; every \<open>Not\<close>
  holds exactly one child, its argument.
\<close>

theorem children_after_construction:
  "(subconditions (Any_init cs) = Inr [] \<longleftrightarrow> (\<forall>c \<in> set cs. c = Any [])) \<and>
   (subconditions (All_init cs) = Inr [] \<longleftrightarrow> (\<forall>c \<in> set cs. c = All_cond [])) \<and>
   subconditions (Not_init c) = Inr [c]"
  by (simp add: Any_init_def All_init_def Not_init_def Any_init_loop_concat
      All_init_loop_concat Any_contribution_empty All_contribution_empty)

text \<open>
  The theorem at \<open>Any(AlwaysTrue)\<close> and \<open>All(All(), AlwaysFalse)\<close>, which have
  children, at \<open>Any(Any(), Any())\<close>, which has none, and at \<open>Not(AlwaysTrue)\<close>.
\<close>

theorem children_after_construction_witness:
  "subconditions (Any_init [AlwaysTrue]) \<noteq> Inr [] \<and>
   subconditions (All_init [All_cond [], AlwaysFalse]) \<noteq> Inr [] \<and>
   subconditions (Any_init [Any [], Any []]) = Inr [] \<and>
   subconditions (Not_init AlwaysTrue) = Inr [AlwaysTrue]"
  using children_after_construction [of "[AlwaysTrue]" AlwaysTrue]
    children_after_construction [of "[All_cond [], AlwaysFalse]" AlwaysTrue]
    children_after_construction [of "[Any [], Any []]" AlwaysTrue]
  by simp

section \<open>Negation\<close>

text \<open>
  C3 as stated fails: the constructor does not simplify, \<open>Not(Not(AlwaysTrue))\<close> is a
  \<open>Not\<close> around a \<open>Not\<close> and not the condition \<open>AlwaysTrue\<close>.
\<close>

theorem double_negation_counterexample:
  "Not_init (Not_init AlwaysTrue) \<noteq> AlwaysTrue"
  by (simp add: Not_init_def)

text \<open>
  C3, amended. For every condition \<open>a\<close>, negating \<open>Not(a)\<close> with the operator \<open>~\<close>
  returns the wrapped condition \<open>a\<close> itself and builds no wrapper; \<open>Not(Not(a))\<close>
  built with the constructor is not structurally equal to \<open>a\<close>, but evaluates as
  \<open>a\<close> does (the same boolean or the same exception); and \<open>~(~a)\<close> is
  structurally equal to \<open>a\<close> unless \<open>a\<close> is itself a \<open>Not\<close> around a \<open>Not\<close>.
  The simplification is made by the operator, not at construction time.
\<close>

theorem double_negation:
  "invert (Not_init a) = a \<and>
   Not_init (Not_init a) \<noteq> a \<and>
   bool_py k (Not_init (Not_init a)) = bool_py k a \<and>
   (\<not> double_Not a \<longrightarrow> invert (invert a) = a)"
proof (intro conjI impI)
  show "invert (Not_init a) = a"
    by (simp add: Not_init_def)
  show "Not_init (Not_init a) \<noteq> a"
  proof
    assume "Not_init (Not_init a) = a"
    then have "size (Not_cond (Not_cond a)) = size a"
      by (simp add: Not_init_def)
    then show False
      by simp
  qed
  show "bool_py k (Not_init (Not_init a)) = bool_py k a"
    by (simp add: Not_init_def split: sum.splits)
  assume "\<not> double_Not a"
  then show "invert (invert a) = a"
    by (induction a rule: double_Not.induct) (simp_all add: Not_init_def)
qed

text \<open>The theorem at \<open>a = AlwaysFalse\<close> and at \<open>a = Not(AlwaysTrue)\<close>.\<close>

theorem double_negation_witness:
  "\<not> double_Not (Not_cond AlwaysTrue) \<and>
   invert (Not_init AlwaysFalse) = AlwaysFalse \<and>
   bool_py (prod_clock 0) (Not_init (Not_init AlwaysFalse)) = Inr False \<and>
   invert (invert (Not_cond AlwaysTrue)) = Not_cond AlwaysTrue"
  using double_negation [of AlwaysFalse "prod_clock 0"]
    double_negation [of "Not_cond AlwaysTrue" "prod_clock 0"]
  by simp

section \<open>Evaluation of composites\<close>

lemma all_py_append:
  "all_py k (xs @ ys) =
     (case all_py k xs of Inl e \<Rightarrow> Inl e
      | Inr b \<Rightarrow> if b then all_py k ys else Inr False)"
  by (induction xs) (auto split: sum.splits)

lemma all_py_contribution:
  "all_py k (case a of All_cond xs \<Rightarrow> xs | _ \<Rightarrow> [a]) = bool_py k a"
  by (cases a) (auto split: sum.splits option.splits)

text \<open>
  C10. \<open>Any()\<close> with no argument evaluates to false and \<open>All()\<close> with no argument
  evaluates to true, whatever the clock.
\<close>

theorem empty_composites_evaluate:
  "bool_py k (Any_init []) = Inr False \<and> bool_py k (All_init []) = Inr True"
  by (simp add: Any_init_def All_init_def)

text \<open>
  C5. When evaluating \<open>c\<close> raises, an \<open>Any\<close> with the children \<open>[AlwaysTrue(), c]\<close>
  evaluates to true and an \<open>All\<close> with the children \<open>[AlwaysFalse(), c]\<close> evaluates
  to false, neither raising, whether the composite is built by its constructor or
  holds exactly these children. The order is that of the child sequence: with \<open>c\<close>
  first, the exception of \<open>c\<close> is what the evaluation raises.
\<close>

theorem short_circuit:
  assumes "bool_py k c = Inl e"
  shows "bool_py k (Any_init [AlwaysTrue, c]) = Inr True \<and>
         bool_py k (All_init [AlwaysFalse, c]) = Inr False \<and>
         bool_py k (Any [AlwaysTrue, c]) = Inr True \<and>
         bool_py k (All_cond [AlwaysFalse, c]) = Inr False \<and>
         bool_py k (Any [c, AlwaysTrue]) = Inl e \<and>
         bool_py k (All_cond [c, AlwaysFalse]) = Inl e"
  using assms by (simp add: Any_init_def All_init_def)

text \<open>
  The theorem at a condition whose \<open>__bool__\<close> raises, in production mode at
  instant 0.
\<close>

theorem short_circuit_witness:
  "bool_py (prod_clock 0) (Custom (Inl (OtherError ''unmet dependency'')) None)
     = Inl (OtherError ''unmet dependency'') \<and>
   bool_py (prod_clock 0)
     (Any_init [AlwaysTrue, Custom (Inl (OtherError ''unmet dependency'')) None])
     = Inr True \<and>
   bool_py (prod_clock 0)
     (All_init [AlwaysFalse, Custom (Inl (OtherError ''unmet dependency'')) None])
     = Inr False \<and>
   bool_py (prod_clock 0)
     (Any [Custom (Inl (OtherError ''unmet dependency'')) None, AlwaysTrue])
     = Inl (OtherError ''unmet dependency'')"
  using short_circuit [of "prod_clock 0"
      "Custom (Inl (OtherError ''unmet dependency'')) None" "OtherError ''unmet dependency''"]
  by simp

text \<open>
  De Morgan holds for all conditions, also when an evaluation raises: both sides then
  raise the same exception, or both stop before reaching it.
\<close>

lemma de_morgan_any_outcome:
  "bool_py k (Not_init (All_init [a, b])) = bool_py k (Any_init [Not_init a, Not_init b])"
  by (simp add: Not_init_def All_init_def Any_init_def all_py_append all_py_contribution
      split: sum.splits)

text \<open>
  C9. For all conditions \<open>a\<close> and \<open>b\<close> that evaluate to booleans \<open>x\<close> and \<open>y\<close>,
  \<open>Not(All(a, b))\<close> and \<open>Any(Not(a), Not(b))\<close> evaluate to the same boolean, the
  negation of \<open>x \<and> y\<close>.
\<close>

theorem de_morgan:
  assumes "bool_py k a = Inr x" and "bool_py k b = Inr y"
  shows "bool_py k (Not_init (All_init [a, b])) = Inr (\<not> (x \<and> y)) \<and>
         bool_py k (Any_init [Not_init a, Not_init b]) = Inr (\<not> (x \<and> y))"
  using assms
  by (simp add: Not_init_def All_init_def Any_init_def all_py_append all_py_contribution)

text \<open>
  The theorem at the four assignments, with \<open>AlwaysTrue\<close> and \<open>AlwaysFalse\<close> for
  \<open>a\<close> and \<open>b\<close>.
\<close>

theorem de_morgan_witness:
  "bool_py (prod_clock 0) AlwaysTrue = Inr True \<and>
   bool_py (prod_clock 0) AlwaysFalse = Inr False \<and>
   bool_py (prod_clock 0) (Not_init (All_init [AlwaysTrue, AlwaysTrue])) = Inr False \<and>
   bool_py (prod_clock 0) (Any_init [Not_init AlwaysTrue, Not_init AlwaysTrue]) = Inr False \<and>
   bool_py (prod_clock 0) (Not_init (All_init [AlwaysTrue, AlwaysFalse])) = Inr True \<and>
   bool_py (prod_clock 0) (Any_init [Not_init AlwaysTrue, Not_init AlwaysFalse]) = Inr True \<and>
   bool_py (prod_clock 0) (Not_init (All_init [AlwaysFalse, AlwaysTrue])) = Inr True \<and>
   bool_py (prod_clock 0) (Any_init [Not_init AlwaysFalse, Not_init AlwaysTrue]) = Inr True \<and>
   bool_py (prod_clock 0) (Not_init (All_init [AlwaysFalse, AlwaysFalse])) = Inr True \<and>
   bool_py (prod_clock 0) (Any_init [Not_init AlwaysFalse, Not_init AlwaysFalse]) = Inr True"
  using de_morgan [of "prod_clock 0" AlwaysTrue True AlwaysTrue True]
    de_morgan [of "prod_clock 0" AlwaysTrue True AlwaysFalse False]
    de_morgan [of "prod_clock 0" AlwaysFalse False AlwaysTrue True]
    de_morgan [of "prod_clock 0" AlwaysFalse False AlwaysFalse False]
  by simp

section \<open>Estimates of composites\<close>







text \<open>
  A divergence that the statement above leaves out: the estimate of a
  \<open>TimeCondition\<close> is its method \<open>estimate_next\<close>, while \<open>All.estimate_timedelta\<close>
  looks for an attribute \<open>estimate_timedelta\<close>. An \<open>All\<close> of two time conditions
  therefore never asks them and returns the resolution, whatever their periods; the
  maximum over the children's estimates is not what the code computes there.
\<close>

lemma All_estimate_timedelta_of_time_conditions:
  "estimate_timedelta (All_cond [TimeCondition p, TimeCondition q]) dt
     = Inr timedelta_resolution"
  by simp

text \<open>
  \<open>Any.estimate_timedelta\<close> never returns: \<open>min\<close> raises \<open>ValueError\<close> on no
  child, and with a child the first element of the generator raises \<open>TypeError\<close> in
  \<open>hasattr\<close>, before any estimate is asked for.
\<close>

lemma Any_estimate_timedelta_raises:
  "estimate_timedelta (Any cs) dt = Inl (if cs = [] then ValueError else TypeError)"
  by (cases cs) (simp_all add: hasattr_one_argument_def)

text \<open>
  C1. The minimum over the children's estimates is what \<open>Any.estimate_timedelta\<close>
  should return; the code does not. On an \<open>Any\<close> of a condition that estimates one
  hour and one that estimates three hours, where the minimum is one hour, the call
  raises \<open>TypeError\<close>.
\<close>

theorem Any_estimate_timedelta_at_two_estimates:
  "estimate_timedelta
     (Any_init [Custom (Inr False) (Some (\<lambda>dt. Inr 3600000000)),
                Custom (Inr False) (Some (\<lambda>dt. Inr 10800000000))]) 0 = Inl TypeError"
  by (simp add: Any_init_def hasattr_one_argument_def)

section \<open>Estimate of a time condition\<close>

text \<open>
  What \<open>estimate_next\<close> returns is the opposite of the distance from \<open>dt\<close> to the
  left edge of the interval rolled forward.
\<close>

lemma TimeCondition_estimate_next_opposite:
  "TimeCondition_estimate_next (Some p) dt = Inr (- (left (rollforward p dt) - dt))"
  by simp

text \<open>
  C2. The estimate of a time condition should be the left edge of the period rolled
  forward to \<open>dt\<close>, minus \<open>dt\<close>; the code subtracts the other way round. For a period
  that is the hour from instant 3600000000 (one hour) on, at \<open>dt = 0\<close> the left
  edge is one hour ahead and the code returns minus one hour.
\<close>

theorem TimeCondition_estimate_next_at_hour_ahead:
  "TimeCondition_estimate_next
     (Some \<lparr>contains = \<lambda>t. 3600000000 \<le> t \<and> t < 7200000000,
            rollforward = \<lambda>t. \<lparr>left = max t 3600000000, right = max t 7200000000\<rparr>\<rparr>) 0
   = Inr (- 3600000000)"
  by simp

section \<open>The parser of one condition\<close>

lemma parse_condition_item_skips:
  "\<forall>p \<in> set ps. p s = Inl ParserError \<Longrightarrow>
   parse_condition_item (ps @ qs) s = parse_condition_item qs s"
  by (induction ps) simp_all

text \<open>
  C8 as stated fails on the exception: when the only registered parser does not match,
  what \<open>parse_condition_item\<close> raises is the builtin \<open>ValueError\<close>, not an exception
  of the parser's own: \<open>ParserError\<close> is caught in the loop and never leaves it.
\<close>

theorem parse_condition_item_counterexample:
  "parse_condition_item [\<lambda>s. Inl ParserError] ''daily'' = Inl ValueError \<and>
   parse_condition_item [\<lambda>s. Inl ParserError] ''daily'' \<noteq> Inl ParserError"
  by simp

text \<open>
  C8, amended. \<open>parse_condition_item\<close> tries the registered parsers in order: when
  the parsers \<open>ps\<close> all raise \<open>ParserError\<close> on \<open>s\<close> and the next parser \<open>p\<close>
  returns a condition, that condition is the result, whatever parsers \<open>qs\<close> follow;
  when all registered parsers raise \<open>ParserError\<close> on \<open>s\<close>, the call fails with a
  \<open>ValueError\<close>.
\<close>

theorem parse_condition_item_first_match:
  assumes "\<forall>p \<in> set ps. p s = Inl ParserError"
  shows "(p s = Inr c \<longrightarrow> parse_condition_item (ps @ p # qs) s = Inr c) \<and>
         parse_condition_item ps s = Inl ValueError"
  using parse_condition_item_skips [OF assms, of "p # qs"]
    parse_condition_item_skips [OF assms, of "[]"]
  by simp

text \<open>
  The theorem at three parsers, of which the first does not match and the other two
  return different conditions: the second one's condition is the result.
\<close>

theorem parse_condition_item_first_match_witness:
  "parse_condition_item
     [\<lambda>s. Inl ParserError, \<lambda>s. Inr AlwaysTrue, \<lambda>s. Inr AlwaysFalse] ''always true''
     = Inr AlwaysTrue \<and>
   parse_condition_item [\<lambda>s. Inl ParserError] ''always true'' = Inl ValueError"
  using parse_condition_item_first_match [of "[\<lambda>s. Inl ParserError]" "''always true''"
      "\<lambda>s. Inr AlwaysTrue" AlwaysTrue "[\<lambda>s. Inr AlwaysFalse]"]
  by simp

end
